theory Spec2Isabelle
  imports Main
begin

section \<open>JavaScript values and plain objects\<close>

text \<open>
  The values the effect handlers of \<^verbatim>\<open>editor/store/effects.js\<close> read from posts,
  edits, attributes and errors. Numbers are integers (ids); \<open>JRef\<close> stands for any nested
  object, array or function and is compared by identity, as \<^verbatim>\<open>===\<close> does. On these values
  \<^verbatim>\<open>===\<close> and lodash's \<^verbatim>\<open>includes\<close> (SameValueZero) are HOL equality.
\<close>

datatype jsval = JUndefined | JNull | JBool bool | JNum int | JStr string | JRef nat

fun truthy :: "jsval \<Rightarrow> bool" where
  "truthy JUndefined = False"
| "truthy JNull = False"
| "truthy (JBool b) = b"
| "truthy (JNum n) = (n \<noteq> 0)"
| "truthy (JStr s) = (s \<noteq> [])"
| "truthy (JRef r) = True"

text \<open>
  A plain object is the list of its own properties in insertion order. A well-formed
  object has no key twice.
\<close>

type_synonym obj = "(string \<times> jsval) list"

definition wf_obj :: "obj \<Rightarrow> bool" where
  "wf_obj ob = distinct (map fst ob)"

text \<open>\<^verbatim>\<open>ob[k]\<close>: a missing property reads as \<^verbatim>\<open>undefined\<close>.\<close>

definition obj_get :: "obj \<Rightarrow> string \<Rightarrow> jsval" where
  "obj_get ob k = (case map_of ob k of None \<Rightarrow> JUndefined | Some v \<Rightarrow> v)"

text \<open>\<^verbatim>\<open>ob[k] = v\<close>: an existing key keeps its position, a new key goes last.\<close>

fun obj_set :: "string \<Rightarrow> jsval \<Rightarrow> obj \<Rightarrow> obj" where
  "obj_set k v [] = [(k, v)]"
| "obj_set k v ((k', v') # ob) =
     (if k' = k then (k, v) # ob else (k', v') # obj_set k v ob)"

text \<open>\<^verbatim>\<open>{ ...target, ...src }\<close>: the properties of \<open>src\<close> are assigned in order.\<close>

definition spread :: "obj \<Rightarrow> obj \<Rightarrow> obj" where
  "spread target src = fold (\<lambda>(k, v). obj_set k v) src target"

text \<open>Spreading \<^verbatim>\<open>null\<close> adds nothing.\<close>

definition spread_opt :: "obj \<Rightarrow> obj option \<Rightarrow> obj" where
  "spread_opt target src = (case src of None \<Rightarrow> target | Some ob \<Rightarrow> spread target ob)"

text \<open>lodash \<^verbatim>\<open>pick( ob, ks )\<close>: the listed keys that \<open>ob\<close> has, in the order listed.\<close>

definition pick :: "obj \<Rightarrow> string list \<Rightarrow> obj" where
  "pick ob ks =
     fold (\<lambda>k acc. case map_of ob k of None \<Rightarrow> acc | Some v \<Rightarrow> obj_set k v acc) ks []"

text \<open>
  \<^verbatim>\<open>table[ v ]\<close> for a table whose keys are status names: a key that is not a string
  converts to a string that is no status name, and reads \<^verbatim>\<open>undefined\<close>.
\<close>

fun index_by :: "obj \<Rightarrow> jsval \<Rightarrow> jsval" where
  "index_by table (JStr s) = obj_get table s"
| "index_by table _ = JUndefined"

text \<open>
  \<^verbatim>\<open>__( 'text' )\<close> of \<^verbatim>\<open>@wordpress/i18n\<close>: localisation is outside the editor store;
  with no translation loaded the text is returned as it is.
\<close>

definition i18n :: "string \<Rightarrow> jsval" where
  "i18n s = JStr s"

section \<open>Blocks, reusable blocks, errors\<close>

datatype block =
  Block (clientId: string) (name: string) (attributes: obj) (innerBlocks: "block list")

text \<open>\<^verbatim>\<open>{ ...blockA, attributes: a }\<close>\<close>

definition with_attributes :: "block \<Rightarrow> obj \<Rightarrow> block" where
  "with_attributes b a = Block (clientId b) (name b) a (innerBlocks b)"

text \<open>A block type; \<open>merge\<close> is \<open>None\<close> when the type declares no merge function.\<close>

record block_type =
  merge :: "(obj \<Rightarrow> obj \<Rightarrow> obj) option"

record reusable_block =
  rb_id :: jsval
  rb_clientId :: string
  rb_title :: jsval
  isTemporary :: bool

text \<open>The value a rejected request carries.\<close>

record err =
  code :: jsval
  message :: jsval

datatype exn = TypeError

datatype 'a response = Resolved 'a | Rejected err

section \<open>Actions and effects\<close>

datatype optimist_type = BEGIN | COMMIT | REVERT

text \<open>\<^verbatim>\<open>optimist: { type, id }\<close>; the type is absent on an update inside a transaction.\<close>

datatype optimist = Optimist (otype: "optimist_type option") (oid: string)

text \<open>What a notice shows: a value, a link, or a paragraph of children.\<close>

datatype element = Val jsval | Anchor jsval element | Para "element list"

datatype notice_options = NoticeOptions (notice_id: string) (spokenMessage: "jsval option")

text \<open>
  The actions the handlers dispatch. The action creators of \<^verbatim>\<open>./actions\<close> are kept as
  constructors under their own names; an action written as an object literal is named by
  its \<^verbatim>\<open>type\<close>.
\<close>

datatype action =
    REQUEST_POST_UPDATE_START_action optimist bool
  | updatePost obj optimist
  | removeNotice string
  | resetAutosave obj
  | resetPost obj
  | REQUEST_POST_UPDATE_SUCCESS_action obj obj optimist bool
  | REQUEST_POST_UPDATE_FAILURE_action optimist obj obj err
  | DIRTY_ARTIFICIALLY
  | createSuccessNotice element notice_options
  | createErrorNotice element notice_options
  | TRASH_POST_FAILURE_action jsval err
  | selectBlock string "int option"
  | replaceBlocks "string list" "block list"
  | removeBlock string bool
  | removeBlocks "string list"
  | receiveReusableBlocks "(obj \<times> block option) list"
  | FETCH_REUSABLE_BLOCKS_SUCCESS jsval
  | FETCH_REUSABLE_BLOCKS_FAILURE jsval err
  | SAVE_REUSABLE_BLOCK_SUCCESS jsval jsval
  | SAVE_REUSABLE_BLOCK_FAILURE jsval
  | REMOVE_REUSABLE_BLOCK jsval optimist
  | DELETE_REUSABLE_BLOCK_SUCCESS jsval optimist
  | DELETE_REUSABLE_BLOCK_FAILURE jsval optimist

text \<open>A template string: literal text and substituted values.\<close>

datatype part = Lit string | Sub jsval

datatype http_method = POST | PUT | DELETE

text \<open>
  What a handler does, in order: \<^verbatim>\<open>dispatch( action )\<close> (an action a handler returns is
  dispatched too) and \<^verbatim>\<open>apiFetch( { path, method, data } )\<close>.
\<close>

datatype event =
    Dispatch action
  | ApiFetch "part list" "http_method option" "obj option"

text \<open>
  The selectors of \<^verbatim>\<open>./selectors\<close>, each as what it returns on the state at hand.
\<close>

record state =
  getCurrentPost :: obj
  getCurrentPostType :: string
  getEditedPostContent :: string
  getPostEdits :: obj
  isEditedPostAutosaveable :: bool
  isEditedPostSaveable :: bool
  isEditedPostNew :: bool
  getAutosave :: "obj option"
  getBlock :: "string \<Rightarrow> block option"
  getBlocks :: "block list"
  getReusableBlock :: "jsval \<Rightarrow> reusable_block option"
  getProvisionalBlockClientId :: "string option"
  isBlockSelected :: "string \<Rightarrow> bool"

text \<open>
  The functions of \<^verbatim>\<open>@wordpress/blocks\<close>, \<^verbatim>\<open>wp.api\<close> and lodash the handlers call;
  \<open>uniqueId\<close> is the identifier the next call of \<^verbatim>\<open>uniqueId()\<close> returns.
\<close>

record env =
  getPostTypeRoute :: "string \<Rightarrow> jsval"
  getBlockType :: "string \<Rightarrow> block_type option"
  switchToBlockType :: "block \<Rightarrow> string \<Rightarrow> block list option"
  parse :: "jsval \<Rightarrow> block list"
  serialize :: "block \<Rightarrow> string"
  createBlock :: "string \<Rightarrow> obj \<Rightarrow> block list \<Rightarrow> block"
  isReusableBlock :: "block \<Rightarrow> bool"
  uniqueId :: string

record options =
  autosave :: jsval

text \<open>Module constants.\<close>

definition SAVE_POST_NOTICE_ID :: string where
  "SAVE_POST_NOTICE_ID = ''SAVE_POST_NOTICE_ID''"

definition AUTOSAVE_POST_NOTICE_ID :: string where
  "AUTOSAVE_POST_NOTICE_ID = ''AUTOSAVE_POST_NOTICE_ID''"

definition TRASH_POST_NOTICE_ID :: string where
  "TRASH_POST_NOTICE_ID = ''TRASH_POST_NOTICE_ID''"

definition REUSABLE_BLOCK_NOTICE_ID :: string where
  "REUSABLE_BLOCK_NOTICE_ID = ''REUSABLE_BLOCK_NOTICE_ID''"

text \<open>
  Modelled from the spec: \<^verbatim>\<open>POST_UPDATE_TRANSACTION_ID\<close> is imported from
  \<^verbatim>\<open>./selectors\<close>, which is not among the sources; it is the fixed, save-scoped
  transaction id, and no handler depends on its value.
\<close>

definition POST_UPDATE_TRANSACTION_ID :: string where
  "POST_UPDATE_TRANSACTION_ID = ''post-update''"

definition publishStatus :: "jsval list" where
  "publishStatus = [JStr ''publish'', JStr ''private'', JStr ''future'']"

section \<open>The handlers\<close>

subsection \<open>removeProvisionalBlock\<close>

text \<open>
  Bound to \<^verbatim>\<open>CLEAR_SELECTED_BLOCK\<close>, \<^verbatim>\<open>SELECT_BLOCK\<close> and \<^verbatim>\<open>MULTI_SELECT\<close>. The
  client id is \<^verbatim>\<open>null\<close> or a string, and the empty string is falsy.
\<close>

definition removeProvisionalBlock :: "state \<Rightarrow> event list" where
  "removeProvisionalBlock st =
     (case getProvisionalBlockClientId st of
        None \<Rightarrow> []
      | Some provisionalBlockClientId \<Rightarrow>
          if provisionalBlockClientId \<noteq> [] \<and> \<not> isBlockSelected st provisionalBlockClientId
          then [Dispatch (removeBlock provisionalBlockClientId False)]
          else [])"

definition CLEAR_SELECTED_BLOCK :: "state \<Rightarrow> event list" where
  "CLEAR_SELECTED_BLOCK = removeProvisionalBlock"

definition SELECT_BLOCK :: "state \<Rightarrow> event list" where
  "SELECT_BLOCK = removeProvisionalBlock"

definition MULTI_SELECT :: "state \<Rightarrow> event list" where
  "MULTI_SELECT = removeProvisionalBlock"

subsection \<open>Saving a post\<close>

text \<open>
  \<open>resp\<close> is how the request settles; the events after the \<open>ApiFetch\<close> are those of the
  \<^verbatim>\<open>then\<close> or the \<^verbatim>\<open>catch\<close> callback. The resolved value is an object, and the
  reducers and handlers run by a dispatch inside \<^verbatim>\<open>then\<close> do not throw, so \<^verbatim>\<open>catch\<close>
  runs for a rejected request only.
\<close>

definition REQUEST_POST_UPDATE :: "env \<Rightarrow> state \<Rightarrow> options \<Rightarrow> obj response \<Rightarrow> event list" where
  "REQUEST_POST_UPDATE env st opts resp =
     (let post = getCurrentPost st;
          isAutosave = truthy (autosave opts);
          isSaveable = (if isAutosave then isEditedPostAutosaveable else isEditedPostSaveable)
      in if \<not> isSaveable st then []
         else
           let edits0 = getPostEdits st;
               edits1 = (if isAutosave then pick edits0 [''title'', ''content'', ''excerpt'']
                         else edits0);
               edits = (if isEditedPostNew st then spread [(''status'', JStr ''draft'')] edits1
                        else edits1);
               toSend = obj_set ''id'' (obj_get post ''id'')
                          (obj_set ''content'' (JStr (getEditedPostContent st)) (spread [] edits));
               basePath = getPostTypeRoute env (getCurrentPostType st)
           in [Dispatch (REQUEST_POST_UPDATE_START_action
                           (Optimist (Some BEGIN) POST_UPDATE_TRANSACTION_ID) isAutosave),
               Dispatch (updatePost toSend (Optimist None POST_UPDATE_TRANSACTION_ID))]
              @ (if isAutosave
                 then [ApiFetch [Lit ''/wp/v2/'', Sub basePath, Lit ''/'', Sub (obj_get post ''id''),
                                 Lit ''/autosaves'']
                         (Some POST)
                         (Some (obj_set ''parent'' (obj_get post ''id'')
                            (spread
                               (spread_opt
                                  (spread [] (pick post [''title'', ''content'', ''excerpt'']))
                                  (getAutosave st))
                               toSend)))]
                 else [Dispatch (removeNotice SAVE_POST_NOTICE_ID),
                       Dispatch (removeNotice AUTOSAVE_POST_NOTICE_ID),
                       ApiFetch [Lit ''/wp/v2/'', Sub basePath, Lit ''/'', Sub (obj_get post ''id'')]
                         (Some PUT) (Some toSend)])
              @ (case resp of
                   Resolved newPost \<Rightarrow>
                     let reset = (if isAutosave then resetAutosave else resetPost);
                         isRevision = (obj_get newPost ''id'' \<noteq> obj_get post ''id'')
                     in [Dispatch (reset newPost),
                         Dispatch (REQUEST_POST_UPDATE_SUCCESS_action post newPost
                                     (Optimist (Some (if isRevision then REVERT else COMMIT))
                                        POST_UPDATE_TRANSACTION_ID)
                                     isAutosave)]
                 | Rejected error \<Rightarrow>
                     [Dispatch (REQUEST_POST_UPDATE_FAILURE_action
                                  (Optimist (Some REVERT) POST_UPDATE_TRANSACTION_ID)
                                  post edits error)]))"

text \<open>
  \<open>st\<close> is the state when the success action is handled: \<^verbatim>\<open>getPostEdits( getState() )\<close>
  is read after the reset. A message is shown when it is truthy.
\<close>

definition REQUEST_POST_UPDATE_SUCCESS :: "state \<Rightarrow> obj \<Rightarrow> obj \<Rightarrow> bool \<Rightarrow> event list" where
  "REQUEST_POST_UPDATE_SUCCESS st previousPost post isAutosave =
     (if length (getPostEdits st) \<noteq> 0 then [Dispatch DIRTY_ARTIFICIALLY] else [])
     @ (if isAutosave then []
        else
          let isPublished = (obj_get previousPost ''status'' \<in> set publishStatus);
              willPublish = (obj_get post ''status'' \<in> set publishStatus);
              (noticeMessage, shouldShowLink) =
                (if \<not> isPublished \<and> \<not> willPublish then (JNull, True)
                 else if isPublished \<and> \<not> willPublish then (i18n ''Post reverted to draft.'', False)
                 else if \<not> isPublished \<and> willPublish then
                   (index_by [(''publish'', i18n ''Post published!''),
                              (''private'', i18n ''Post published privately!''),
                              (''future'', i18n ''Post scheduled!'')]
                      (obj_get post ''status''), True)
                 else (i18n ''Post updated!'', True))
          in if truthy noticeMessage
             then [Dispatch (createSuccessNotice
                     (Para [Val noticeMessage, Val (JStr '' ''),
                            if shouldShowLink
                            then Anchor (obj_get post ''link'') (Val (i18n ''View post''))
                            else Val (JBool False)])
                     (NoticeOptions SAVE_POST_NOTICE_ID (Some noticeMessage)))]
             else [])"

text \<open>
  The rejection value is an error object, so \<^verbatim>\<open>error &&\<close> holds;
  \<^verbatim>\<open>indexOf( x ) !== -1\<close> is membership.
\<close>

definition REQUEST_POST_UPDATE_FAILURE :: "obj \<Rightarrow> obj \<Rightarrow> err \<Rightarrow> event list" where
  "REQUEST_POST_UPDATE_FAILURE post edits error =
     (if JStr ''rest_autosave_no_changes'' = code error then []
      else
        let isPublished = (obj_get post ''status'' \<in> set publishStatus);
            messages = [(''publish'', i18n ''Publishing failed''),
                        (''private'', i18n ''Publishing failed''),
                        (''future'', i18n ''Scheduling failed'')];
            noticeMessage =
              (if \<not> isPublished \<and> obj_get edits ''status'' \<in> set publishStatus
               then index_by messages (obj_get edits ''status'')
               else i18n ''Updating failed'')
        in [Dispatch (createErrorNotice (Val noticeMessage)
                        (NoticeOptions SAVE_POST_NOTICE_ID None))])"

subsection \<open>Trashing a post\<close>

text \<open>\<open>st'\<close> is the state when the request has resolved.\<close>

definition TRASH_POST :: "env \<Rightarrow> state \<Rightarrow> state \<Rightarrow> jsval \<Rightarrow> unit response \<Rightarrow> event list" where
  "TRASH_POST env st st' postId resp =
     (let basePath = getPostTypeRoute env (getCurrentPostType st)
      in [Dispatch (removeNotice TRASH_POST_NOTICE_ID),
          ApiFetch [Lit ''/wp/v2/'', Sub basePath, Lit ''/'', Sub postId] (Some DELETE) None]
         @ (case resp of
              Resolved _ \<Rightarrow>
                let post = getCurrentPost st'
                in [Dispatch (resetPost (obj_set ''status'' (JStr ''trash'') (spread [] post)))]
            | Rejected error \<Rightarrow> [Dispatch (TRASH_POST_FAILURE_action postId error)]))"

definition TRASH_POST_FAILURE :: "err \<Rightarrow> event list" where
  "TRASH_POST_FAILURE error =
     (let message = (if truthy (message error) \<and> code error \<noteq> JStr ''unknown_error''
                     then message error else i18n ''Trashing failed'')
      in [Dispatch (createErrorNotice (Val message) (NoticeOptions TRASH_POST_NOTICE_ID None))])"

subsection \<open>Merging two blocks\<close>

text \<open>
  \<^verbatim>\<open>getBlock\<close> returns \<^verbatim>\<open>null\<close> for an unknown client id and \<^verbatim>\<open>getBlockType\<close>
  \<^verbatim>\<open>undefined\<close> for an unknown name; reading a property of either throws.
  \<^verbatim>\<open>switchToBlockType\<close> returns \<^verbatim>\<open>null\<close> or a list of blocks.
\<close>

definition MERGE_BLOCKS :: "env \<Rightarrow> state \<Rightarrow> string \<times> string \<Rightarrow> exn + event list" where
  "MERGE_BLOCKS env st blocks =
     (let (firstBlockClientId, secondBlockClientId) = blocks
      in case getBlock st firstBlockClientId of
           None \<Rightarrow> Inl TypeError
         | Some blockA \<Rightarrow>
             (case getBlockType env (name blockA) of
                None \<Rightarrow> Inl TypeError
              | Some blockType \<Rightarrow>
                  (case merge blockType of
                     None \<Rightarrow> Inr [Dispatch (selectBlock (clientId blockA) None)]
                   | Some merge_fn \<Rightarrow>
                       (case getBlock st secondBlockClientId of
                          None \<Rightarrow> Inl TypeError
                        | Some blockB \<Rightarrow>
                            let blocksWithTheSameType =
                                  (if name blockA = name blockB then Some [blockB]
                                   else switchToBlockType env blockB (name blockA))
                            in (case blocksWithTheSameType of
                                  None \<Rightarrow> Inr []
                                | Some [] \<Rightarrow> Inr []
                                | Some (transformed # others) \<Rightarrow>
                                    (let updatedAttributes =
                                           merge_fn (attributes blockA) (attributes transformed)
                                     in Inr [Dispatch (selectBlock (clientId blockA) (Some (- 1))),
                                             Dispatch (replaceBlocks
                                               [clientId blockA, clientId blockB]
                                               (with_attributes blockA
                                                  (spread (spread [] (attributes blockA))
                                                     updatedAttributes)
                                                # others))]))))))"

subsection \<open>Reusable blocks\<close>

text \<open>
  The resolved value is already cast to a list (\<^verbatim>\<open>castArray\<close>);
  \<^verbatim>\<open>parse( content )[ 0 ]\<close> is \<^verbatim>\<open>undefined\<close> when nothing was parsed.
\<close>

definition FETCH_REUSABLE_BLOCKS :: "env \<Rightarrow> jsval \<Rightarrow> obj list response \<Rightarrow> event list" where
  "FETCH_REUSABLE_BLOCKS env id' resp =
     (let basePath = getPostTypeRoute env ''wp_block''
      in if \<not> truthy basePath then []
         else
           [if truthy id'
            then ApiFetch [Lit ''/wp/v2/'', Sub basePath, Lit ''/'', Sub id'] None None
            else ApiFetch [Lit ''/wp/v2/'', Sub basePath, Lit ''?per_page=-1''] None None]
           @ (case resp of
                Resolved reusableBlockOrBlocks \<Rightarrow>
                  [Dispatch (receiveReusableBlocks
                     (map (\<lambda>reusableBlock.
                             (reusableBlock,
                              case parse env (obj_get reusableBlock ''content'') of
                                [] \<Rightarrow> None
                              | parsedBlock # _ \<Rightarrow> Some parsedBlock))
                        reusableBlockOrBlocks)),
                   Dispatch (FETCH_REUSABLE_BLOCKS_SUCCESS id')]
              | Rejected error \<Rightarrow> [Dispatch (FETCH_REUSABLE_BLOCKS_FAILURE id' error)]))"

text \<open>Destructuring a missing reusable block or a missing block throws.\<close>

definition SAVE_REUSABLE_BLOCK ::
    "env \<Rightarrow> state \<Rightarrow> jsval \<Rightarrow> obj response \<Rightarrow> exn + event list" where
  "SAVE_REUSABLE_BLOCK env st id' resp =
     (let basePath = getPostTypeRoute env ''wp_block''
      in if \<not> truthy basePath then Inr []
         else
           case getReusableBlock st id' of
             None \<Rightarrow> Inl TypeError
           | Some reusableBlock \<Rightarrow>
               (case getBlock st (rb_clientId reusableBlock) of
                  None \<Rightarrow> Inl TypeError
                | Some b \<Rightarrow>
                    let title = rb_title reusableBlock;
                        content = JStr (serialize env
                                    (createBlock env (name b) (attributes b) (innerBlocks b)));
                        data = (if isTemporary reusableBlock
                                then [(''title'', title), (''content'', content)]
                                else [(''id'', id'), (''title'', title), (''content'', content)]);
                        path = (if isTemporary reusableBlock
                                then [Lit ''/wp/v2/'', Sub basePath]
                                else [Lit ''/wp/v2/'', Sub basePath, Lit ''/'', Sub id']);
                        method = (if isTemporary reusableBlock then POST else PUT)
                    in Inr ([ApiFetch path (Some method) (Some data)]
                            @ (case resp of
                                 Resolved updatedReusableBlock \<Rightarrow>
                                   [Dispatch (SAVE_REUSABLE_BLOCK_SUCCESS
                                                (obj_get updatedReusableBlock ''id'') id'),
                                    Dispatch (createSuccessNotice
                                      (Val (if isTemporary reusableBlock
                                            then i18n ''Block created.''
                                            else i18n ''Block updated.''))
                                      (NoticeOptions REUSABLE_BLOCK_NOTICE_ID None))]
                               | Rejected error \<Rightarrow>
                                   [Dispatch (SAVE_REUSABLE_BLOCK_FAILURE id'),
                                    Dispatch (createErrorNotice (Val (message error))
                                      (NoticeOptions REUSABLE_BLOCK_NOTICE_ID
                                         (Some (message error))))]))))"

definition DELETE_REUSABLE_BLOCK :: "env \<Rightarrow> state \<Rightarrow> jsval \<Rightarrow> unit response \<Rightarrow> event list" where
  "DELETE_REUSABLE_BLOCK env st id' resp =
     (let basePath = getPostTypeRoute env ''wp_block''
      in if \<not> truthy basePath then []
         else
           case getReusableBlock st id' of
             None \<Rightarrow> []
           | Some reusableBlock \<Rightarrow>
               if isTemporary reusableBlock then []
               else
                 let allBlocks = getBlocks st;
                     associatedBlocks =
                       filter (\<lambda>b. isReusableBlock env b \<and> obj_get (attributes b) ''ref'' = id')
                         allBlocks;
                     associatedBlockClientIds = map clientId associatedBlocks;
                     transactionId = uniqueId env
                 in [Dispatch (REMOVE_REUSABLE_BLOCK id' (Optimist (Some BEGIN) transactionId)),
                     Dispatch (removeBlocks
                                 (associatedBlockClientIds @ [rb_clientId reusableBlock])),
                     ApiFetch [Lit ''/wp/v2/'', Sub basePath, Lit ''/'', Sub id'] (Some DELETE) None]
                    @ (case resp of
                         Resolved _ \<Rightarrow>
                           [Dispatch (DELETE_REUSABLE_BLOCK_SUCCESS id'
                                        (Optimist (Some COMMIT) transactionId)),
                            Dispatch (createSuccessNotice (Val (i18n ''Block deleted.''))
                                        (NoticeOptions REUSABLE_BLOCK_NOTICE_ID None))]
                       | Rejected error \<Rightarrow>
                           [Dispatch (DELETE_REUSABLE_BLOCK_FAILURE id'
                                        (Optimist (Some REVERT) transactionId)),
                            Dispatch (createErrorNotice (Val (message error))
                                        (NoticeOptions REUSABLE_BLOCK_NOTICE_ID
                                           (Some (message error))))]))"

subsection \<open>Running the handler of a dispatched action\<close>

text \<open>
  The store runs the handler registered under an action's \<^verbatim>\<open>type\<close> when the action is
  dispatched, after the reducers; \<open>st'\<close> is the state at that time. \<open>follow_up\<close> does so
  for the actions that this file writes as object literals and handles itself, and for
  \<^verbatim>\<open>selectBlock\<close>.

  Modelled from the spec: the action creators are in \<^verbatim>\<open>./actions\<close>, which is not among
  the sources. Selecting a node is the selection intent that the file handles under
  \<^verbatim>\<open>SELECT_BLOCK\<close>, so a dispatched \<^verbatim>\<open>selectBlock\<close> runs that handler.
  \<^verbatim>\<open>removeBlock( id, false )\<close> is a removal with \<^verbatim>\<open>selectPrevious\<close> false, on which the
  \<^verbatim>\<open>REMOVE_BLOCKS\<close> handler returns at once; the removals that ask for the previous
  block to be selected are not followed here.
\<close>

fun follow_up :: "state \<Rightarrow> event \<Rightarrow> event list" where
  "follow_up st' (Dispatch (REQUEST_POST_UPDATE_SUCCESS_action previousPost post opt isAutosave)) =
     REQUEST_POST_UPDATE_SUCCESS st' previousPost post isAutosave"
| "follow_up st' (Dispatch (REQUEST_POST_UPDATE_FAILURE_action opt post edits error)) =
     REQUEST_POST_UPDATE_FAILURE post edits error"
| "follow_up st' (Dispatch (TRASH_POST_FAILURE_action postId error)) = TRASH_POST_FAILURE error"
| "follow_up st' (Dispatch (selectBlock selected initialPosition)) = SELECT_BLOCK st'"
| "follow_up st' _ = []"

definition with_follow_ups :: "state \<Rightarrow> event list \<Rightarrow> event list" where
  "with_follow_ups st' evs = concat (map (\<lambda>ev. ev # follow_up st' ev) evs)"

text \<open>A save attempt: the request handler and the handlers of what it dispatches.\<close>

definition save_attempt :: "env \<Rightarrow> state \<Rightarrow> state \<Rightarrow> options \<Rightarrow> obj response \<Rightarrow> event list" where
  "save_attempt env st st' opts resp = with_follow_ups st' (REQUEST_POST_UPDATE env st opts resp)"

definition trash_attempt :: "env \<Rightarrow> state \<Rightarrow> state \<Rightarrow> jsval \<Rightarrow> unit response \<Rightarrow> event list" where
  "trash_attempt env st st' postId resp = with_follow_ups st' (TRASH_POST env st st' postId resp)"

text \<open>
  A merge attempt: the merge handler and the handlers of what it dispatches; \<open>st'\<close> is
  the state once the dispatched selection has been applied.
\<close>

definition merge_attempt :: "env \<Rightarrow> state \<Rightarrow> state \<Rightarrow> string \<times> string \<Rightarrow> exn + event list" where
  "merge_attempt env st st' blocks =
     (case MERGE_BLOCKS env st blocks of
        Inl e \<Rightarrow> Inl e
      | Inr evs \<Rightarrow> Inr (with_follow_ups st' evs))"

fun is_success_notice :: "event \<Rightarrow> bool" where
  "is_success_notice (Dispatch (createSuccessNotice c n)) = True"
| "is_success_notice _ = False"

fun is_error_notice :: "event \<Rightarrow> bool" where
  "is_error_notice (Dispatch (createErrorNotice c n)) = True"
| "is_error_notice _ = False"

definition is_notice :: "event \<Rightarrow> bool" where
  "is_notice ev = (is_success_notice ev \<or> is_error_notice ev)"

fun is_request :: "event \<Rightarrow> bool" where
  "is_request (ApiFetch p m d) = True"
| "is_request _ = False"

text \<open>The \<^verbatim>\<open>data\<close> of the first request among the events.\<close>

fun request_data :: "event list \<Rightarrow> obj option" where
  "request_data [] = None"
| "request_data (ApiFetch p m d # evs) = d"
| "request_data (Dispatch a # evs) = request_data evs"

text \<open>What happens once the first request has been issued.\<close>

fun after_request :: "event list \<Rightarrow> event list" where
  "after_request [] = []"
| "after_request (ApiFetch p m d # evs) = evs"
| "after_request (Dispatch a # evs) = after_request evs"

section \<open>The specification's wording\<close>

text \<open>The published family of statuses.\<close>

definition published_family :: "jsval \<Rightarrow> bool" where
  "published_family s = (s = JStr ''publish'' \<or> s = JStr ''private'' \<or> s = JStr ''future'')"

text \<open>A success notice of a save: the message, a space, and the view link or nothing.\<close>

definition success_notice :: "string \<Rightarrow> bool \<Rightarrow> jsval \<Rightarrow> event" where
  "success_notice msg with_link link =
     Dispatch (createSuccessNotice
       (Para [Val (JStr msg), Val (JStr '' ''),
              if with_link then Anchor link (Val (JStr ''View post'')) else Val (JBool False)])
       (NoticeOptions SAVE_POST_NOTICE_ID (Some (JStr msg))))"

text \<open>
  The notice of a full save as the specification selects it from the previous and the
  new status.
\<close>

definition spec_save_notice :: "jsval \<Rightarrow> jsval \<Rightarrow> jsval \<Rightarrow> event list" where
  "spec_save_notice previous new link =
     (if \<not> published_family previous \<and> \<not> published_family new then []
      else if published_family previous \<and> \<not> published_family new
        then [success_notice ''Post reverted to draft.'' False link]
      else if \<not> published_family previous \<and> published_family new
        then [success_notice
                (if new = JStr ''publish'' then ''Post published!''
                 else if new = JStr ''private'' then ''Post published privately!''
                 else ''Post scheduled!'') True link]
      else [success_notice ''Post updated!'' True link])"

text \<open>
  The merged node as the specification words it: the first node's client id and children,
  with the attributes the merge function produced.
\<close>

definition spec_merged_node :: "block \<Rightarrow> (obj \<Rightarrow> obj \<Rightarrow> obj) \<Rightarrow> block \<Rightarrow> block" where
  "spec_merged_node first merge_fn transformed =
     Block (clientId first) (name first)
       (merge_fn (attributes first) (attributes transformed)) (innerBlocks first)"

text \<open>
  The message of a trash failure as the specification words it: the server's message when
  there is one and the code is not the generic one, else the canned message.
\<close>

definition spec_trash_message :: "err \<Rightarrow> jsval" where
  "spec_trash_message error =
     (if truthy (message error) \<and> code error \<noteq> JStr ''unknown_error'' then message error
      else JStr ''Trashing failed'')"

section \<open>Concrete stores\<close>

text \<open>A merge function in the manner of the paragraph block: it returns the content only.\<close>

definition example_merge :: "obj \<Rightarrow> obj \<Rightarrow> obj" where
  "example_merge a b =
     (case (obj_get a ''content'', obj_get b ''content'') of
        (JStr x, JStr y) \<Rightarrow> [(''content'', JStr (x @ y))]
      | _ \<Rightarrow> [])"

definition example_blocks :: "block list" where
  "example_blocks =
     [Block ''a'' ''core/paragraph'' [(''content'', JStr ''a''), (''align'', JStr ''left'')] [],
      Block ''b'' ''core/paragraph'' [(''content'', JStr ''b'')] [],
      Block ''i'' ''core/image'' [] [],
      Block ''q'' ''core/quote'' [(''value'', JStr ''qr'')] []]"

text \<open>
  Paragraphs merge, images do not; a quote turns into two paragraphs, nothing else is
  transformed.
\<close>

definition example_env :: env where
  "example_env =
     \<lparr> getPostTypeRoute = (\<lambda>t. if t = ''post'' then JStr ''posts''
                              else if t = ''wp_block'' then JStr ''blocks'' else JUndefined),
       getBlockType = (\<lambda>n. if n = ''core/paragraph'' then Some \<lparr> merge = Some example_merge \<rparr>
                          else if n = ''core/image'' then Some \<lparr> merge = None \<rparr> else None),
       switchToBlockType =
         (\<lambda>b n. if name b = ''core/quote'' \<and> n = ''core/paragraph''
                then Some [Block ''q1'' ''core/paragraph'' [(''content'', JStr ''q'')] [],
                           Block ''q2'' ''core/paragraph'' [(''content'', JStr ''r'')] []]
                else None),
       parse = (\<lambda>c. []),
       serialize = (\<lambda>b. name b),
       createBlock = (\<lambda>n a i. Block ''fresh'' n a i),
       isReusableBlock = (\<lambda>b. name b = ''core/block''),
       uniqueId = ''1'' \<rparr>"

text \<open>The same with no route for the reusable blocks.\<close>

definition example_env_no_route :: env where
  "example_env_no_route = example_env \<lparr> getPostTypeRoute := (\<lambda>t. JUndefined) \<rparr>"

text \<open>
  Scenario A: the new document \<^verbatim>\<open>{id: 5, status: "auto-draft"}\<close> with the edits
  \<^verbatim>\<open>{status: "publish"}\<close>. Block \<open>b\<close> is provisional and block \<open>a\<close> selected; the one
  reusable block is temporary.
\<close>

definition scenario_A_state :: state where
  "scenario_A_state =
     \<lparr> getCurrentPost = [(''id'', JNum 5), (''status'', JStr ''auto-draft'')],
       getCurrentPostType = ''post'',
       getEditedPostContent = ''hello'',
       getPostEdits = [(''status'', JStr ''publish'')],
       isEditedPostAutosaveable = True,
       isEditedPostSaveable = True,
       isEditedPostNew = True,
       getAutosave = None,
       getBlock = (\<lambda>c. find (\<lambda>b. clientId b = c) example_blocks),
       getBlocks = example_blocks,
       getReusableBlock =
         (\<lambda>i. if i = JStr ''reusable1''
              then Some \<lparr> rb_id = JStr ''reusable1'', rb_clientId = ''b'',
                          rb_title = JStr ''Untitled reusable block'', isTemporary = True \<rparr>
              else None),
       getProvisionalBlockClientId = Some ''b'',
       isBlockSelected = (\<lambda>c. c = ''a'') \<rparr>"

text \<open>The state once the save of scenario A has been applied: no edits are left.\<close>

definition scenario_A_saved :: state where
  "scenario_A_saved = scenario_A_state \<lparr> getPostEdits := [], isEditedPostNew := False \<rparr>"

text \<open>Scenario B: the document \<^verbatim>\<open>{id: 7}\<close> with the edits \<^verbatim>\<open>{title: "x"}\<close>.\<close>

definition scenario_B_state :: state where
  "scenario_B_state =
     scenario_A_state \<lparr> getCurrentPost := [(''id'', JNum 7)],
                        getPostEdits := [(''title'', JStr ''x'')],
                        isEditedPostNew := False \<rparr>"

text \<open>The state of scenario A once the image \<open>i\<close> has been selected.\<close>

definition scenario_A_image_selected :: state where
  "scenario_A_image_selected = scenario_A_state \<lparr> isBlockSelected := (\<lambda>c. c = ''i'') \<rparr>"

text \<open>Scenario C: the error \<^verbatim>\<open>{code: "forbidden", message: "No."}\<close>.\<close>

definition scenario_C_error :: err where
  "scenario_C_error = \<lparr> code = JStr ''forbidden'', message = JStr ''No.'' \<rparr>"

section \<open>Objects: lookups, keys, well-formedness\<close>

lemma map_of_obj_set:
  "map_of (obj_set k v ob) k' = (if k' = k then Some v else map_of ob k')"
  by (induction ob) auto

lemma in_keys_iff: "k \<in> fst ` set ob \<longleftrightarrow> map_of ob k \<noteq> None"
  by (simp add: map_of_eq_None_iff)

lemma keys_obj_set: "fst ` set (obj_set k v ob) = insert k (fst ` set ob)"
proof (rule set_eqI)
  fix k'
  show "k' \<in> fst ` set (obj_set k v ob) \<longleftrightarrow> k' \<in> insert k (fst ` set ob)"
    unfolding in_keys_iff insert_iff by (simp add: map_of_obj_set)
qed

lemma distinct_obj_set: "distinct (map fst ob) \<Longrightarrow> distinct (map fst (obj_set k v ob))"
proof (induction ob)
  case Nil
  then show ?case by simp
next
  case (Cons p ob)
  obtain k' v' where p: "p = (k', v')" by (cases p)
  from Cons.prems p have "k' \<notin> fst ` set ob" and "distinct (map fst ob)" by auto
  with Cons.IH p show ?case
    using keys_obj_set [of k v ob] by auto
qed

lemma wf_obj_set: "wf_obj ob \<Longrightarrow> wf_obj (obj_set k v ob)"
  by (simp add: wf_obj_def distinct_obj_set)

lemma wf_spread: "wf_obj target \<Longrightarrow> wf_obj (spread target src)"
  unfolding spread_def
proof (induction src arbitrary: target)
  case Nil
  then show ?case by simp
next
  case (Cons p src)
  then show ?case by (cases p) (simp add: wf_obj_set)
qed

lemma keys_spread: "fst ` set (spread target src) = fst ` set target \<union> fst ` set src"
  unfolding spread_def
proof (induction src arbitrary: target)
  case Nil
  then show ?case by simp
next
  case (Cons p src)
  obtain k v where p: "p = (k, v)" by (cases p)
  show ?case
    using Cons.IH [of "obj_set k v target"] keys_obj_set [of k v target]
    by (simp add: p)
qed

lemma map_of_spread:
  "wf_obj src \<Longrightarrow>
   map_of (spread target src) k
   = (case map_of src k of None \<Rightarrow> map_of target k | Some v \<Rightarrow> Some v)"
  unfolding spread_def wf_obj_def
proof (induction src arbitrary: target)
  case Nil
  then show ?case by simp
next
  case (Cons p src)
  obtain k' v' where p: "p = (k', v')" by (cases p)
  from Cons.prems p have k': "map_of src k' = None" and d: "distinct (map fst src)"
    by (auto simp: map_of_eq_None_iff)
  show ?case
    using Cons.IH [OF d, of "obj_set k' v' target"] k'
    by (simp add: p map_of_obj_set split: option.splits)
qed

lemma wf_pick_aux:
  "wf_obj acc \<Longrightarrow>
   wf_obj (fold (\<lambda>k acc. case map_of ob k of None \<Rightarrow> acc | Some v \<Rightarrow> obj_set k v acc) ks acc)"
proof (induction ks arbitrary: acc)
  case Nil
  then show ?case by simp
next
  case (Cons k ks)
  then show ?case by (cases "map_of ob k") (simp_all add: wf_obj_set)
qed

lemma wf_pick: "wf_obj (pick ob ks)"
  unfolding pick_def by (rule wf_pick_aux) (simp add: wf_obj_def)

lemma map_of_pick_aux:
  "map_of (fold (\<lambda>k acc. case map_of ob k of None \<Rightarrow> acc | Some v \<Rightarrow> obj_set k v acc) ks acc) k
   = (if k \<in> set ks \<and> map_of ob k \<noteq> None then map_of ob k else map_of acc k)"
proof (induction ks arbitrary: acc)
  case Nil
  then show ?case by simp
next
  case (Cons k' ks)
  then show ?case by (cases "map_of ob k'") (auto simp: map_of_obj_set)
qed

lemma map_of_pick: "map_of (pick ob ks) k = (if k \<in> set ks then map_of ob k else None)"
  unfolding pick_def by (simp add: map_of_pick_aux)

lemma wf_obj_simple: "wf_obj [(k, v)]" "wf_obj []"
  by (simp_all add: wf_obj_def)

section \<open>Saving: notices and transactions\<close>

lemma autosave_edits_status:
  "obj_get (pick e [''title'', ''content'', ''excerpt'']) ''status'' = JUndefined"
  "obj_get (spread [(''status'', JStr ''draft'')] (pick e [''title'', ''content'', ''excerpt'']))
     ''status'' = JStr ''draft''"
  by (simp_all add: obj_get_def map_of_spread wf_pick map_of_pick)

lemma not_published:
  "JUndefined \<notin> set publishStatus" "JStr ''draft'' \<notin> set publishStatus"
  by (simp_all add: publishStatus_def)

lemma success_handler_notice:
  "filter is_notice (REQUEST_POST_UPDATE_SUCCESS st' previousPost post False)
   = spec_save_notice (obj_get previousPost ''status'') (obj_get post ''status'')
       (obj_get post ''link'')"
  by (auto simp add: REQUEST_POST_UPDATE_SUCCESS_def spec_save_notice_def published_family_def
      publishStatus_def success_notice_def i18n_def is_notice_def obj_get_def)

text \<open>
  Against claim C1 as stated: an autosave of scenario B whose request fails with the code
  \<^verbatim>\<open>forbidden\<close> dispatches the error notice \<^verbatim>\<open>Updating failed\<close>. The failure action
  carries no autosave flag, and its handler is silent for one code only.
\<close>

theorem autosave_failure_notice_counterexample:
  "truthy (autosave \<lparr> autosave = JBool True \<rparr>) \<and>
   filter is_notice
     (save_attempt example_env scenario_B_state scenario_B_state \<lparr> autosave = JBool True \<rparr>
        (Rejected scenario_C_error))
   = [Dispatch (createErrorNotice (Val (JStr ''Updating failed''))
                  (NoticeOptions ''SAVE_POST_NOTICE_ID'' None))]"
  by code_simp

text \<open>
  Claim C1, amended. For every save attempt with a truthy \<^verbatim>\<open>autosave\<close> option: when the
  post is not autosaveable nothing happens at all; otherwise no success or error notice is
  dispatched when the request succeeds (same resource or a revision) or fails with the
  code \<^verbatim>\<open>rest_autosave_no_changes\<close>, and exactly one error notice, \<^verbatim>\<open>Updating failed\<close>
  under the save notice id, is dispatched when it fails with any other code. After the
  request, a success dispatches the autosave reset, then the success action resolving
  the transaction as COMMIT or REVERT, then \<^verbatim>\<open>DIRTY_ARTIFICIALLY\<close> if edits remain; a
  failure dispatches the failure action resolving the transaction as REVERT, followed by
  that notice, if any.
\<close>

theorem autosave_notices:
  assumes "truthy (autosave opts)"
  shows "(\<not> isEditedPostAutosaveable st \<longrightarrow> save_attempt env st st' opts resp = []) \<and>
         (isEditedPostAutosaveable st \<longrightarrow>
            filter is_notice (save_attempt env st st' opts (Resolved newPost)) = [] \<and>
            filter is_notice (save_attempt env st st' opts (Rejected error)) =
              (if JStr ''rest_autosave_no_changes'' = code error then []
               else [Dispatch (createErrorNotice (Val (JStr ''Updating failed''))
                                 (NoticeOptions SAVE_POST_NOTICE_ID None))]) \<and>
            after_request (save_attempt env st st' opts (Resolved newPost)) =
              [Dispatch (resetAutosave newPost),
               Dispatch (REQUEST_POST_UPDATE_SUCCESS_action (getCurrentPost st) newPost
                  (Optimist (Some (if obj_get newPost ''id'' \<noteq> obj_get (getCurrentPost st) ''id''
                                   then REVERT else COMMIT))
                     POST_UPDATE_TRANSACTION_ID)
                  True)]
              @ (if length (getPostEdits st') \<noteq> 0 then [Dispatch DIRTY_ARTIFICIALLY] else []) \<and>
            (\<exists>edits. after_request (save_attempt env st st' opts (Rejected error)) =
               Dispatch (REQUEST_POST_UPDATE_FAILURE_action
                           (Optimist (Some REVERT) POST_UPDATE_TRANSACTION_ID)
                           (getCurrentPost st) edits error)
               # filter is_notice (save_attempt env st st' opts (Rejected error))))"
proof (intro conjI impI)
  assume "\<not> isEditedPostAutosaveable st"
  with assms show "save_attempt env st st' opts resp = []"
    by (simp add: save_attempt_def with_follow_ups_def REQUEST_POST_UPDATE_def)
next
  assume a: "isEditedPostAutosaveable st"
  from assms show "filter is_notice (save_attempt env st st' opts (Resolved newPost)) = []"
    by (simp add: save_attempt_def with_follow_ups_def REQUEST_POST_UPDATE_def
        REQUEST_POST_UPDATE_SUCCESS_def Let_def is_notice_def)
  from assms a
  show n: "filter is_notice (save_attempt env st st' opts (Rejected error)) =
              (if JStr ''rest_autosave_no_changes'' = code error then []
               else [Dispatch (createErrorNotice (Val (JStr ''Updating failed''))
                                 (NoticeOptions SAVE_POST_NOTICE_ID None))])"
    by (simp add: save_attempt_def with_follow_ups_def REQUEST_POST_UPDATE_def
        REQUEST_POST_UPDATE_FAILURE_def Let_def is_notice_def autosave_edits_status
        not_published i18n_def)
  from assms a
  show "after_request (save_attempt env st st' opts (Resolved newPost)) =
              [Dispatch (resetAutosave newPost),
               Dispatch (REQUEST_POST_UPDATE_SUCCESS_action (getCurrentPost st) newPost
                  (Optimist (Some (if obj_get newPost ''id'' \<noteq> obj_get (getCurrentPost st) ''id''
                                   then REVERT else COMMIT))
                     POST_UPDATE_TRANSACTION_ID)
                  True)]
              @ (if length (getPostEdits st') \<noteq> 0 then [Dispatch DIRTY_ARTIFICIALLY] else [])"
    by (simp add: save_attempt_def with_follow_ups_def REQUEST_POST_UPDATE_def
        REQUEST_POST_UPDATE_SUCCESS_def Let_def)
  from assms a
  show "\<exists>edits. after_request (save_attempt env st st' opts (Rejected error)) =
               Dispatch (REQUEST_POST_UPDATE_FAILURE_action
                           (Optimist (Some REVERT) POST_UPDATE_TRANSACTION_ID)
                           (getCurrentPost st) edits error)
               # filter is_notice (save_attempt env st st' opts (Rejected error))"
    unfolding n
    by (simp add: save_attempt_def with_follow_ups_def REQUEST_POST_UPDATE_def
        REQUEST_POST_UPDATE_FAILURE_def Let_def autosave_edits_status not_published i18n_def)
qed

text \<open>Scenario B, with the resource \<^verbatim>\<open>{id: 99}\<close> returned and with the no-changes error.\<close>

theorem autosave_notices_witness:
  "filter is_notice
     (save_attempt example_env scenario_B_state scenario_B_state \<lparr> autosave = JBool True \<rparr>
        (Resolved [(''id'', JNum 99)])) = [] \<and>
   filter is_notice
     (save_attempt example_env scenario_B_state scenario_B_state \<lparr> autosave = JBool True \<rparr>
        (Rejected \<lparr> code = JStr ''rest_autosave_no_changes'', message = JStr ''none'' \<rparr>)) = [] \<and>
   after_request
     (save_attempt example_env scenario_B_state scenario_B_state \<lparr> autosave = JBool True \<rparr>
        (Resolved [(''id'', JNum 99)]))
   = [Dispatch (resetAutosave [(''id'', JNum 99)]),
      Dispatch (REQUEST_POST_UPDATE_SUCCESS_action [(''id'', JNum 7)] [(''id'', JNum 99)]
                  (Optimist (Some REVERT) POST_UPDATE_TRANSACTION_ID) True),
      Dispatch DIRTY_ARTIFICIALLY]"
proof -
  have h: "truthy (autosave \<lparr> autosave = JBool True \<rparr>)" by simp
  have s: "isEditedPostAutosaveable scenario_B_state"
    by (simp add: scenario_B_state_def scenario_A_state_def)
  show ?thesis
    using s autosave_notices [OF h, where st = scenario_B_state and st' = scenario_B_state
        and env = example_env and newPost = "[(''id'', JNum 99)]"
        and error = "\<lparr> code = JStr ''rest_autosave_no_changes'', message = JStr ''none'' \<rparr>"]
    by (simp add: scenario_B_state_def scenario_A_state_def obj_get_def)
qed

text \<open>
  Claim C2. For every save or autosave request that resolves, what follows the request
  is first the reset from the returned resource (\<^verbatim>\<open>resetAutosave\<close> for an autosave,
  \<^verbatim>\<open>resetPost\<close> for a full save) and then the success action, which resolves the
  transaction under \<^verbatim>\<open>POST_UPDATE_TRANSACTION_ID\<close> as COMMIT when the returned resource's
  id equals the id of the post the request started from, and as REVERT when it differs.
\<close>

theorem save_success_resets_then_resolves:
  assumes "if truthy (autosave opts) then isEditedPostAutosaveable st else isEditedPostSaveable st"
  shows "after_request (REQUEST_POST_UPDATE env st opts (Resolved newPost)) =
           [Dispatch ((if truthy (autosave opts) then resetAutosave else resetPost) newPost),
            Dispatch (REQUEST_POST_UPDATE_SUCCESS_action (getCurrentPost st) newPost
               (Optimist (Some (if obj_get newPost ''id'' = obj_get (getCurrentPost st) ''id''
                                then COMMIT else REVERT))
                  POST_UPDATE_TRANSACTION_ID)
               (truthy (autosave opts)))]"
  using assms by (simp add: REQUEST_POST_UPDATE_def Let_def split: if_splits)

text \<open>Scenario B reverts; the full save of scenario A commits.\<close>

theorem save_success_resets_then_resolves_witness:
  "after_request
     (REQUEST_POST_UPDATE example_env scenario_B_state \<lparr> autosave = JBool True \<rparr>
        (Resolved [(''id'', JNum 99)]))
   = [Dispatch (resetAutosave [(''id'', JNum 99)]),
      Dispatch (REQUEST_POST_UPDATE_SUCCESS_action [(''id'', JNum 7)] [(''id'', JNum 99)]
                  (Optimist (Some REVERT) POST_UPDATE_TRANSACTION_ID) True)] \<and>
   after_request
     (REQUEST_POST_UPDATE example_env scenario_A_state \<lparr> autosave = JBool False \<rparr>
        (Resolved [(''id'', JNum 5), (''status'', JStr ''publish'')]))
   = [Dispatch (resetPost [(''id'', JNum 5), (''status'', JStr ''publish'')]),
      Dispatch (REQUEST_POST_UPDATE_SUCCESS_action
                  [(''id'', JNum 5), (''status'', JStr ''auto-draft'')]
                  [(''id'', JNum 5), (''status'', JStr ''publish'')]
                  (Optimist (Some COMMIT) POST_UPDATE_TRANSACTION_ID) False)]"
proof -
  have b: "if truthy (autosave \<lparr> autosave = JBool True \<rparr>)
           then isEditedPostAutosaveable scenario_B_state
           else isEditedPostSaveable scenario_B_state"
    by (simp add: scenario_B_state_def scenario_A_state_def)
  have a: "if truthy (autosave \<lparr> autosave = JBool False \<rparr>)
           then isEditedPostAutosaveable scenario_A_state
           else isEditedPostSaveable scenario_A_state"
    by (simp add: scenario_A_state_def)
  show ?thesis
    using save_success_resets_then_resolves [OF b, of example_env "[(''id'', JNum 99)]"]
      save_success_resets_then_resolves [OF a, of example_env
        "[(''id'', JNum 5), (''status'', JStr ''publish'')]"]
    by (simp add: scenario_B_state_def scenario_A_state_def obj_get_def)
qed

text \<open>
  Claim C3. For every full (non-autosave) save that resolves, the notices dispatched are
  exactly those the specification selects from the status of the post before the save
  and the status of the returned post: none when both are outside
  \<^verbatim>\<open>{publish, private, future}\<close>; \<^verbatim>\<open>Post reverted to draft.\<close> without a view link when
  only the previous one is inside; \<^verbatim>\<open>Post published!\<close>, \<^verbatim>\<open>Post published privately!\<close> or
  \<^verbatim>\<open>Post scheduled!\<close> with a view link when only the new one is inside; \<^verbatim>\<open>Post updated!\<close>
  with a view link when both are. This holds whether or not the returned id is the
  same.
\<close>

theorem full_save_success_notice:
  assumes "\<not> truthy (autosave opts)" and "isEditedPostSaveable st"
  shows "filter is_notice (save_attempt env st st' opts (Resolved newPost)) =
           spec_save_notice (obj_get (getCurrentPost st) ''status'')
             (obj_get newPost ''status'') (obj_get newPost ''link'')"
  using assms success_handler_notice [of st' "getCurrentPost st" newPost]
  by (simp add: save_attempt_def with_follow_ups_def REQUEST_POST_UPDATE_def Let_def
      is_notice_def)

text \<open>Scenario A: publishing the new document shows \<^verbatim>\<open>Post published!\<close> with the link.\<close>

theorem full_save_success_notice_witness:
  "filter is_notice
     (save_attempt example_env scenario_A_state scenario_A_saved \<lparr> autosave = JBool False \<rparr>
        (Resolved [(''id'', JNum 5), (''status'', JStr ''publish''),
                   (''link'', JStr ''http://example.org/?p=5'')]))
   = [Dispatch (createSuccessNotice
        (Para [Val (JStr ''Post published!''), Val (JStr '' ''),
               Anchor (JStr ''http://example.org/?p=5'') (Val (JStr ''View post''))])
        (NoticeOptions SAVE_POST_NOTICE_ID (Some (JStr ''Post published!''))))]"
proof -
  have h: "\<not> truthy (autosave \<lparr> autosave = JBool False \<rparr>)" by simp
  have s: "isEditedPostSaveable scenario_A_state" by (simp add: scenario_A_state_def)
  show ?thesis
    using full_save_success_notice [OF h s, of example_env scenario_A_saved
        "[(''id'', JNum 5), (''status'', JStr ''publish''),
          (''link'', JStr ''http://example.org/?p=5'')]"]
    by (simp add: scenario_A_state_def obj_get_def spec_save_notice_def published_family_def
        success_notice_def)
qed

section \<open>Saving: the status of the payload\<close>

text \<open>
  Against claim C4 as stated: an autosave of the new document of scenario A, whose edits
  hold the explicit status \<^verbatim>\<open>publish\<close>, sends the status \<^verbatim>\<open>draft\<close>. The autosave keeps
  the title, content and excerpt of the edits only, and the default is injected after
  that.
\<close>

theorem autosave_drops_edited_status_counterexample:
  "isEditedPostNew scenario_A_state \<and>
   obj_get (getPostEdits scenario_A_state) ''status'' = JStr ''publish'' \<and>
   request_data
     (REQUEST_POST_UPDATE example_env scenario_A_state \<lparr> autosave = JBool True \<rparr>
        (Resolved [(''id'', JNum 5)]))
   = Some [(''status'', JStr ''draft''), (''content'', JStr ''hello''), (''id'', JNum 5),
           (''parent'', JNum 5)]"
  by code_simp

text \<open>
  Claim C4, amended. For every save request that passes the saveability gate, on
  well-formed edits: a full save of a new document sends the edited status when the edits
  hold one, and nothing beyond the edits, the content and the id; it sends the status
  \<^verbatim>\<open>draft\<close> when the edits hold none. An autosave of a new document always sends the
  status \<^verbatim>\<open>draft\<close>, whatever status the edits hold. For a document that is not new no
  default status is injected: a full save sends the status of the edits or none, and an
  autosave sends a status only if the stored autosave has one.
\<close>

theorem save_payload_status:
  assumes sav: "if truthy (autosave opts) then isEditedPostAutosaveable st
                else isEditedPostSaveable st"
      and wfe: "wf_obj (getPostEdits st)"
      and wfa: "case getAutosave st of None \<Rightarrow> True | Some a \<Rightarrow> wf_obj a"
  shows "\<exists>payload. request_data (REQUEST_POST_UPDATE env st opts resp) = Some payload \<and>
     map_of payload ''status'' =
        (if truthy (autosave opts) then
            (if isEditedPostNew st then Some (JStr ''draft'')
             else (case getAutosave st of None \<Rightarrow> None | Some a \<Rightarrow> map_of a ''status''))
         else (case map_of (getPostEdits st) ''status'' of
                 None \<Rightarrow> (if isEditedPostNew st then Some (JStr ''draft'') else None)
               | Some s \<Rightarrow> Some s)) \<and>
     (\<not> truthy (autosave opts) \<longrightarrow>
        fst ` set payload =
          fst ` set (getPostEdits st) \<union> {''content'', ''id''}
          \<union> (if isEditedPostNew st then {''status''} else {}))"
proof (cases "truthy (autosave opts)")
  case True
  let ?ks = "[''title'', ''content'', ''excerpt'']"
  let ?e = "if isEditedPostNew st
            then spread [(''status'', JStr ''draft'')] (pick (getPostEdits st) ?ks)
            else pick (getPostEdits st) ?ks"
  let ?toSend = "obj_set ''id'' (obj_get (getCurrentPost st) ''id'')
                   (obj_set ''content'' (JStr (getEditedPostContent st)) (spread [] ?e))"
  let ?base = "spread_opt (spread [] (pick (getCurrentPost st) ?ks)) (getAutosave st)"
  have wfe': "wf_obj ?e" by (simp add: wf_spread wf_obj_simple wf_pick)
  have wfs: "wf_obj ?toSend" by (simp add: wf_obj_set wf_spread wf_obj_simple)
  have e: "map_of ?e ''status'' = (if isEditedPostNew st then Some (JStr ''draft'') else None)"
    by (simp add: map_of_spread wf_pick map_of_pick)
  have s: "map_of ?toSend ''status'' = (if isEditedPostNew st then Some (JStr ''draft'') else None)"
    using e wfe' by (simp add: map_of_obj_set map_of_spread)
  have b: "map_of ?base ''status''
           = (case getAutosave st of None \<Rightarrow> None | Some a \<Rightarrow> map_of a ''status'')"
    using wfa
    by (cases "getAutosave st")
       (simp_all add: spread_opt_def map_of_spread wf_pick map_of_pick split: option.splits)
  have "map_of (obj_set ''parent'' (obj_get (getCurrentPost st) ''id'') (spread ?base ?toSend))
          ''status''
        = (if isEditedPostNew st then Some (JStr ''draft'')
           else (case getAutosave st of None \<Rightarrow> None | Some a \<Rightarrow> map_of a ''status''))"
    using s b wfs by (simp add: map_of_obj_set map_of_spread)
  with True sav show ?thesis
    by (simp add: REQUEST_POST_UPDATE_def Let_def)
next
  case False
  let ?e = "if isEditedPostNew st
            then spread [(''status'', JStr ''draft'')] (getPostEdits st)
            else getPostEdits st"
  let ?toSend = "obj_set ''id'' (obj_get (getCurrentPost st) ''id'')
                   (obj_set ''content'' (JStr (getEditedPostContent st)) (spread [] ?e))"
  have wfe': "wf_obj ?e" using wfe by (simp add: wf_spread wf_obj_simple)
  have e: "map_of ?e ''status''
           = (case map_of (getPostEdits st) ''status'' of
                None \<Rightarrow> (if isEditedPostNew st then Some (JStr ''draft'') else None)
              | Some s \<Rightarrow> Some s)"
    using wfe by (simp add: map_of_spread split: option.splits)
  have s: "map_of ?toSend ''status''
           = (case map_of (getPostEdits st) ''status'' of
                None \<Rightarrow> (if isEditedPostNew st then Some (JStr ''draft'') else None)
              | Some s \<Rightarrow> Some s)"
    using e wfe' by (simp add: map_of_obj_set map_of_spread split: option.splits)
  have k: "fst ` set ?toSend
           = fst ` set (getPostEdits st) \<union> {''content'', ''id''}
             \<union> (if isEditedPostNew st then {''status''} else {})"
    by (auto simp: keys_obj_set keys_spread)
  from False sav s k show ?thesis
    by (simp add: REQUEST_POST_UPDATE_def Let_def)
qed

text \<open>Scenario A: the explicit status \<^verbatim>\<open>publish\<close> is sent, and nothing is injected.\<close>

theorem save_payload_status_witness:
  "\<exists>payload.
     request_data
       (REQUEST_POST_UPDATE example_env scenario_A_state \<lparr> autosave = JBool False \<rparr>
          (Resolved [(''id'', JNum 5)])) = Some payload \<and>
     map_of payload ''status'' = Some (JStr ''publish'') \<and>
     fst ` set payload = {''status'', ''content'', ''id''}"
proof -
  have sav: "if truthy (autosave \<lparr> autosave = JBool False \<rparr>)
             then isEditedPostAutosaveable scenario_A_state
             else isEditedPostSaveable scenario_A_state"
    by (simp add: scenario_A_state_def)
  have wfe: "wf_obj (getPostEdits scenario_A_state)"
    by (simp add: scenario_A_state_def wf_obj_def)
  have wfa: "case getAutosave scenario_A_state of None \<Rightarrow> True | Some a \<Rightarrow> wf_obj a"
    by (simp add: scenario_A_state_def)
  have "isEditedPostNew scenario_A_state"
    and "getPostEdits scenario_A_state = [(''status'', JStr ''publish'')]"
    by (simp_all add: scenario_A_state_def)
  then show ?thesis
    using save_payload_status [OF sav wfe wfa, of example_env "Resolved [(''id'', JNum 5)]"]
    by auto
qed

section \<open>Merging\<close>

text \<open>
  Against claim C5 as stated: merging the paragraphs \<open>a\<close> and \<open>b\<close>, where the merge
  function returns the content only, the replacing node keeps the alignment of \<open>a\<close>; the
  node of the specification's wording carries the merge function's result and has none.
\<close>

theorem merge_keeps_first_attributes_counterexample:
  "MERGE_BLOCKS example_env scenario_A_state (''a'', ''b'')
   = Inr [Dispatch (selectBlock ''a'' (Some (- 1))),
          Dispatch (replaceBlocks [''a'', ''b'']
            [Block ''a'' ''core/paragraph''
               [(''content'', JStr ''ab''), (''align'', JStr ''left'')] []])] \<and>
   spec_merged_node
     (Block ''a'' ''core/paragraph'' [(''content'', JStr ''a''), (''align'', JStr ''left'')] [])
     example_merge
     (Block ''b'' ''core/paragraph'' [(''content'', JStr ''b'')] [])
   = Block ''a'' ''core/paragraph'' [(''content'', JStr ''ab'')] []"
  by code_simp

text \<open>
  Claim C5, amended. For every merge of two existing blocks where the first block's type
  declares a merge function and the second block has the first's type or its
  transformation into that type yields at least one block, the handler selects the first
  block and replaces the pair by a block that keeps the first block's client id, name and
  children and carries the first block's attributes overlaid with the attributes the merge
  function produced from the first block's attributes and those of the first transformed
  block (an attribute the merge result defines takes that value, every other attribute of
  the first block is kept), followed by the transformed blocks beyond the first.
\<close>

theorem merge_replaces_pair:
  assumes "getBlock st a = Some blockA" and "getBlock st b = Some blockB"
      and "getBlockType env (name blockA) = Some blockType"
      and "merge blockType = Some merge_fn"
      and "(name blockA = name blockB \<and> transformed = blockB \<and> others = []) \<or>
           (name blockA \<noteq> name blockB \<and>
            switchToBlockType env blockB (name blockA) = Some (transformed # others))"
  shows "MERGE_BLOCKS env st (a, b) =
           Inr [Dispatch (selectBlock (clientId blockA) (Some (- 1))),
                Dispatch (replaceBlocks [clientId blockA, clientId blockB]
                  (Block (clientId blockA) (name blockA)
                     (spread (spread [] (attributes blockA))
                        (merge_fn (attributes blockA) (attributes transformed)))
                     (innerBlocks blockA)
                   # others))] \<and>
         (wf_obj (attributes blockA) \<and>
          wf_obj (merge_fn (attributes blockA) (attributes transformed)) \<longrightarrow>
          (\<forall>k. map_of (spread (spread [] (attributes blockA))
                         (merge_fn (attributes blockA) (attributes transformed))) k =
                (case map_of (merge_fn (attributes blockA) (attributes transformed)) k of
                   None \<Rightarrow> map_of (attributes blockA) k
                 | Some v \<Rightarrow> Some v)))"
  using assms
  by (auto simp: MERGE_BLOCKS_def with_attributes_def map_of_spread wf_obj_simple
      split: option.splits)

text \<open>A paragraph merged with a quote that turns into two paragraphs.\<close>

theorem merge_replaces_pair_witness:
  "MERGE_BLOCKS example_env scenario_A_state (''a'', ''q'')
   = Inr [Dispatch (selectBlock ''a'' (Some (- 1))),
          Dispatch (replaceBlocks [''a'', ''q'']
            [Block ''a'' ''core/paragraph''
               [(''content'', JStr ''aq''), (''align'', JStr ''left'')] [],
             Block ''q2'' ''core/paragraph'' [(''content'', JStr ''r'')] []])]"
proof -
  let ?A = "Block ''a'' ''core/paragraph'' [(''content'', JStr ''a''), (''align'', JStr ''left'')] []"
  let ?Q = "Block ''q'' ''core/quote'' [(''value'', JStr ''qr'')] []"
  let ?Q1 = "Block ''q1'' ''core/paragraph'' [(''content'', JStr ''q'')] []"
  let ?Q2 = "Block ''q2'' ''core/paragraph'' [(''content'', JStr ''r'')] []"
  have 1: "getBlock scenario_A_state ''a'' = Some ?A"
    by (simp add: scenario_A_state_def example_blocks_def)
  have 2: "getBlock scenario_A_state ''q'' = Some ?Q"
    by (simp add: scenario_A_state_def example_blocks_def)
  have 3: "getBlockType example_env (name ?A) = Some \<lparr> merge = Some example_merge \<rparr>"
    by (simp add: example_env_def)
  have 4: "merge \<lparr> merge = Some example_merge \<rparr> = Some example_merge" by simp
  have 5: "(name ?A = name ?Q \<and> ?Q1 = ?Q \<and> [?Q2] = []) \<or>
           (name ?A \<noteq> name ?Q \<and>
            switchToBlockType example_env ?Q (name ?A) = Some (?Q1 # [?Q2]))"
    by (simp add: example_env_def)
  show ?thesis
    using merge_replaces_pair [OF 1 2 3 4 5]
    by (simp add: example_merge_def obj_get_def spread_def)
qed

text \<open>
  Against claim C6 as stated: in scenario A block \<open>b\<close> is provisional. Merging the image
  \<open>i\<close>, whose type has no merge function, with \<open>b\<close> selects \<open>i\<close>, and the selection's
  handler then dispatches the removal of \<open>b\<close>: a removal is dispatched and the tree
  changes.
\<close>

theorem merge_selection_removes_provisional_counterexample:
  "getBlockType example_env ''core/image'' = Some \<lparr> merge = None \<rparr> \<and>
   merge_attempt example_env scenario_A_state scenario_A_image_selected (''i'', ''b'')
   = Inr [Dispatch (selectBlock ''i'' None), Dispatch (removeBlock ''b'' False)]"
proof (rule conjI)
  show "getBlockType example_env ''core/image'' = Some \<lparr> merge = None \<rparr>"
    by (simp add: example_env_def)
  show "merge_attempt example_env scenario_A_state scenario_A_image_selected (''i'', ''b'')
        = Inr [Dispatch (selectBlock ''i'' None), Dispatch (removeBlock ''b'' False)]"
    by code_simp
qed

text \<open>
  Claim C6, amended. For every merge attempt where the first block's type declares no
  merge function, the merge handler itself dispatches the selection of the first block and
  nothing else, so no replacement is dispatched and the first block becomes the selected
  one. The tree is left unchanged except for a provisional block: if, once the selection
  is applied, a provisional block exists and is not the selected block, the selection's
  handler dispatches the removal of exactly that block, without selecting the previous
  one; if there is no provisional block or it is the selected one, the selection is the
  only dispatch.
\<close>

theorem merge_without_capability_selects_first:
  assumes "getBlock st a = Some blockA"
      and "getBlockType env (name blockA) = Some blockType"
      and "merge blockType = None"
  shows "MERGE_BLOCKS env st (a, b) = Inr [Dispatch (selectBlock (clientId blockA) None)] \<and>
         (getProvisionalBlockClientId st' = Some p \<and> p \<noteq> [] \<and> \<not> isBlockSelected st' p \<longrightarrow>
            merge_attempt env st st' (a, b) =
              Inr [Dispatch (selectBlock (clientId blockA) None),
                   Dispatch (removeBlock p False)]) \<and>
         (getProvisionalBlockClientId st' = None \<or>
          getProvisionalBlockClientId st' = Some p \<and> isBlockSelected st' p \<longrightarrow>
            merge_attempt env st st' (a, b) =
              Inr [Dispatch (selectBlock (clientId blockA) None)])"
proof -
  from assms
  have m: "MERGE_BLOCKS env st (a, b) = Inr [Dispatch (selectBlock (clientId blockA) None)]"
    by (simp add: MERGE_BLOCKS_def)
  then have "merge_attempt env st st' (a, b) =
               Inr (Dispatch (selectBlock (clientId blockA) None) # removeProvisionalBlock st')"
    by (simp add: merge_attempt_def with_follow_ups_def SELECT_BLOCK_def)
  with m show ?thesis
    by (auto simp: removeProvisionalBlock_def)
qed

text \<open>
  An image has no merge function: with the provisional block \<open>b\<close> it is removed, and
  with no provisional block the selection is all.
\<close>

theorem merge_without_capability_selects_first_witness:
  "MERGE_BLOCKS example_env scenario_A_state (''i'', ''b'')
   = Inr [Dispatch (selectBlock ''i'' None)] \<and>
   merge_attempt example_env scenario_A_state scenario_A_image_selected (''i'', ''b'')
   = Inr [Dispatch (selectBlock ''i'' None), Dispatch (removeBlock ''b'' False)] \<and>
   merge_attempt example_env scenario_A_state
     (scenario_A_image_selected \<lparr> getProvisionalBlockClientId := None \<rparr>) (''i'', ''b'')
   = Inr [Dispatch (selectBlock ''i'' None)]"
proof -
  let ?I = "Block ''i'' ''core/image'' [] []"
  have 1: "getBlock scenario_A_state ''i'' = Some ?I"
    by (simp add: scenario_A_state_def example_blocks_def)
  have 2: "getBlockType example_env (name ?I) = Some \<lparr> merge = None \<rparr>"
    by (simp add: example_env_def)
  have 3: "merge \<lparr> merge = None \<rparr> = None" by simp
  show ?thesis
    using merge_without_capability_selects_first [OF 1 2 3,
        of "''b''" scenario_A_image_selected "''b''"]
      merge_without_capability_selects_first [OF 1 2 3,
        of "''b''" "scenario_A_image_selected \<lparr> getProvisionalBlockClientId := None \<rparr>" "''b''"]
    by (simp add: scenario_A_image_selected_def scenario_A_state_def)
qed

section \<open>Reusable blocks, trashing, the provisional block\<close>

text \<open>
  Claim C7. For every request to delete a reusable block that does not exist or is still
  temporary, the handler does nothing: no request, no transaction, no removal, no notice.
\<close>

theorem delete_reusable_refuses:
  assumes "case getReusableBlock st id' of None \<Rightarrow> True | Some rb \<Rightarrow> isTemporary rb"
  shows "DELETE_REUSABLE_BLOCK env st id' resp = []"
  using assms by (simp add: DELETE_REUSABLE_BLOCK_def Let_def split: option.splits)

text \<open>A temporary reusable block and an unknown id, with the route available.\<close>

theorem delete_reusable_refuses_witness:
  "DELETE_REUSABLE_BLOCK example_env scenario_A_state (JStr ''reusable1'') (Resolved ()) = [] \<and>
   DELETE_REUSABLE_BLOCK example_env scenario_A_state (JNum 404) (Resolved ()) = []"
proof -
  have t: "case getReusableBlock scenario_A_state (JStr ''reusable1'') of
             None \<Rightarrow> True | Some rb \<Rightarrow> isTemporary rb"
    by (simp add: scenario_A_state_def)
  have m: "case getReusableBlock scenario_A_state (JNum 404) of
             None \<Rightarrow> True | Some rb \<Rightarrow> isTemporary rb"
    by (simp add: scenario_A_state_def)
  show ?thesis
    using delete_reusable_refuses [OF t, of example_env "Resolved ()"]
      delete_reusable_refuses [OF m, of example_env "Resolved ()"]
    by simp
qed

text \<open>
  Claim C8. For every trash request that fails, exactly one notice is dispatched, an error
  notice under the trash notice id, and its message is the error's message when that is
  present (truthy) and the error's code is not \<^verbatim>\<open>unknown_error\<close>, and \<^verbatim>\<open>Trashing failed\<close>
  otherwise.
\<close>

theorem trash_failure_message:
  "filter is_notice (trash_attempt env st st' postId (Rejected error)) =
     [Dispatch (createErrorNotice (Val (spec_trash_message error))
                  (NoticeOptions TRASH_POST_NOTICE_ID None))]"
  by (simp add: trash_attempt_def with_follow_ups_def TRASH_POST_def TRASH_POST_FAILURE_def
      spec_trash_message_def i18n_def is_notice_def Let_def)

text \<open>Scenario C, and the same message under the generic code.\<close>

theorem trash_failure_message_witness:
  "filter is_notice
     (trash_attempt example_env scenario_A_state scenario_A_state (JNum 3)
        (Rejected scenario_C_error))
   = [Dispatch (createErrorNotice (Val (JStr ''No.''))
                  (NoticeOptions TRASH_POST_NOTICE_ID None))] \<and>
   filter is_notice
     (trash_attempt example_env scenario_A_state scenario_A_state (JNum 3)
        (Rejected \<lparr> code = JStr ''unknown_error'', message = JStr ''No.'' \<rparr>))
   = [Dispatch (createErrorNotice (Val (JStr ''Trashing failed''))
                  (NoticeOptions TRASH_POST_NOTICE_ID None))]"
  using trash_failure_message [of example_env scenario_A_state scenario_A_state "JNum 3"
      scenario_C_error]
    trash_failure_message [of example_env scenario_A_state scenario_A_state "JNum 3"
      "\<lparr> code = JStr ''unknown_error'', message = JStr ''No.'' \<rparr>"]
  by (simp add: spec_trash_message_def scenario_C_error_def)

text \<open>
  Claim C9. For each of the handlers of \<^verbatim>\<open>CLEAR_SELECTED_BLOCK\<close>, \<^verbatim>\<open>SELECT_BLOCK\<close> and
  \<^verbatim>\<open>MULTI_SELECT\<close>: if there is a provisional block (its client id a non-empty string)
  and it is not selected, the handler dispatches the removal of exactly that block with
  \<^verbatim>\<open>selectPrevious\<close> false; if there is none, or it is selected, the handler does
  nothing.
\<close>

theorem provisional_block_removed:
  assumes "handler \<in> {CLEAR_SELECTED_BLOCK, SELECT_BLOCK, MULTI_SELECT}"
  shows "(getProvisionalBlockClientId st = Some p \<and> p \<noteq> [] \<and> \<not> isBlockSelected st p \<longrightarrow>
            handler st = [Dispatch (removeBlock p False)]) \<and>
         (getProvisionalBlockClientId st = None \<or>
          getProvisionalBlockClientId st = Some p \<and> isBlockSelected st p \<longrightarrow>
            handler st = [])"
  using assms
  by (auto simp: CLEAR_SELECTED_BLOCK_def SELECT_BLOCK_def MULTI_SELECT_def
      removeProvisionalBlock_def)

text \<open>Block \<open>b\<close> is provisional and \<open>a\<close> is selected.\<close>

theorem provisional_block_removed_witness:
  "SELECT_BLOCK scenario_A_state = [Dispatch (removeBlock ''b'' False)] \<and>
   MULTI_SELECT (scenario_A_state \<lparr> getProvisionalBlockClientId := None \<rparr>) = [] \<and>
   CLEAR_SELECTED_BLOCK (scenario_A_state \<lparr> getProvisionalBlockClientId := Some ''a'' \<rparr>) = []"
proof -
  have 1: "SELECT_BLOCK \<in> {CLEAR_SELECTED_BLOCK, SELECT_BLOCK, MULTI_SELECT}" by simp
  have 2: "MULTI_SELECT \<in> {CLEAR_SELECTED_BLOCK, SELECT_BLOCK, MULTI_SELECT}" by simp
  have 3: "CLEAR_SELECTED_BLOCK \<in> {CLEAR_SELECTED_BLOCK, SELECT_BLOCK, MULTI_SELECT}" by simp
  show ?thesis
    using provisional_block_removed [OF 1, of scenario_A_state "''b''"]
      provisional_block_removed [OF 2,
        of "scenario_A_state \<lparr> getProvisionalBlockClientId := None \<rparr>" "''b''"]
      provisional_block_removed [OF 3,
        of "scenario_A_state \<lparr> getProvisionalBlockClientId := Some ''a'' \<rparr>" "''a''"]
    by (simp add: scenario_A_state_def)
qed

text \<open>
  Claim C10. When \<^verbatim>\<open>wp.api.getPostTypeRoute( 'wp_block' )\<close> is falsy, fetching, saving
  and deleting a reusable block each do nothing: no request, no dispatch, no notice.
\<close>

theorem reusable_no_route_noop:
  assumes "\<not> truthy (getPostTypeRoute env ''wp_block'')"
  shows "FETCH_REUSABLE_BLOCKS env id1 r1 = [] \<and>
         SAVE_REUSABLE_BLOCK env st id2 r2 = Inr [] \<and>
         DELETE_REUSABLE_BLOCK env st id3 r3 = []"
  using assms
  by (simp add: FETCH_REUSABLE_BLOCKS_def SAVE_REUSABLE_BLOCK_def DELETE_REUSABLE_BLOCK_def)

text \<open>The store without a route for reusable blocks.\<close>

theorem reusable_no_route_noop_witness:
  "FETCH_REUSABLE_BLOCKS example_env_no_route JUndefined (Resolved []) = [] \<and>
   SAVE_REUSABLE_BLOCK example_env_no_route scenario_A_state (JStr ''reusable1'')
     (Resolved [(''id'', JNum 12)]) = Inr [] \<and>
   DELETE_REUSABLE_BLOCK example_env_no_route scenario_A_state (JNum 12) (Resolved ()) = []"
proof -
  have h: "\<not> truthy (getPostTypeRoute example_env_no_route ''wp_block'')"
    by (simp add: example_env_no_route_def)
  show ?thesis
    using reusable_no_route_noop [OF h, of JUndefined "Resolved []" scenario_A_state
        "JStr ''reusable1''" "Resolved [(''id'', JNum 12)]" "JNum 12" "Resolved ()"]
    by simp
qed

end
